theory Spec2Isabelle
  imports Complex_Main "HOL-Library.Word"
begin

unbundle bit_operations_syntax

section \<open>JavaScript values\<close>

text \<open>
  A \<open>Uint8Array\<close> is a list of bytes. A JavaScript number is \<open>NaN\<close>, an infinity or a
  finite value; every finite double is a rational, and the two zeros are one value here
  (the code tells them apart nowhere: it only uses \<open>!\<close>, \<open>typeof\<close>, \<open>==\<close>, \<open>!=\<close>,
  \<open>!==\<close> and \<open>switch\<close>).
\<close>

type_synonym bytes = "8 word list"

datatype jsnum = NaN | PosInf | NegInf | Fin rat

text \<open>
  The values a JSON object holds. An object is the list of its properties: a name reads
  as the first value the list binds it to, and as \<open>undefined\<close> when the list does not
  bind it.
\<close>

datatype jsval =
    JUndefined
  | JNull
  | JBool bool
  | JNum jsnum
  | JStr string
  | JArr "jsval list"
  | JObj "(string \<times> jsval) list"

datatype jstype = T_undefined | T_object | T_boolean | T_number | T_string

fun typeof :: "jsval \<Rightarrow> jstype" where
  "typeof JUndefined = T_undefined"
| "typeof JNull = T_object"
| "typeof (JBool b) = T_boolean"
| "typeof (JNum n) = T_number"
| "typeof (JStr s) = T_string"
| "typeof (JArr xs) = T_object"
| "typeof (JObj ps) = T_object"

text \<open>\<open>if (v)\<close> and \<open>!v\<close>: the falsy values are undefined, null, false, 0, NaN and "".\<close>

fun truthy :: "jsval \<Rightarrow> bool" where
  "truthy JUndefined = False"
| "truthy JNull = False"
| "truthy (JBool b) = b"
| "truthy (JNum n) = (n \<noteq> NaN \<and> n \<noteq> Fin 0)"
| "truthy (JStr s) = (s \<noteq> [])"
| "truthy (JArr xs) = True"
| "truthy (JObj ps) = True"

text \<open>\<open>a == b\<close> on two numbers: NaN equals nothing, itself included.\<close>

definition num_eq :: "jsnum \<Rightarrow> jsnum \<Rightarrow> bool" where
  "num_eq a b = (a \<noteq> NaN \<and> b \<noteq> NaN \<and> a = b)"

text \<open>
  \<open>v == n\<close> for a number \<open>n\<close>: undefined and null equal no number, a boolean is
  compared as 0 or 1, and a string, array or object operand is first converted by the
  runtime's ToNumber (of the operand's primitive value), which is the parameter \<open>tn\<close>.
\<close>

fun loose_eq_num :: "(jsval \<Rightarrow> jsnum) \<Rightarrow> jsval \<Rightarrow> jsnum \<Rightarrow> bool" where
  "loose_eq_num tn JUndefined n = False"
| "loose_eq_num tn JNull n = False"
| "loose_eq_num tn (JBool b) n = num_eq (if b then Fin 1 else Fin 0) n"
| "loose_eq_num tn (JNum m) n = num_eq m n"
| "loose_eq_num tn (JStr s) n = num_eq (tn (JStr s)) n"
| "loose_eq_num tn (JArr xs) n = num_eq (tn (JArr xs)) n"
| "loose_eq_num tn (JObj ps) n = num_eq (tn (JObj ps)) n"

section \<open>Errors\<close>

datatype MslError =
    UNIDENTIFIED_CIPHERTEXT_ENVELOPE
  | UNSUPPORTED_CIPHERTEXT_ENVELOPE
  | UNIDENTIFIED_CIPHERSPEC
  | JSON_PARSE_ERROR
  | CIPHERTEXT_ENVELOPE_PARSE_ERROR
  | CIPHERTEXT_ENVELOPE_ENCODE_ERROR
  | ENVELOPE_KEY_ID_MISMATCH
  | ENCRYPT_NOT_SUPPORTED
  | ENCRYPT_ERROR
  | DECRYPT_NOT_SUPPORTED
  | DECRYPT_ERROR
  | WRAP_NOT_SUPPORTED
  | WRAP_ERROR
  | SIGN_NOT_SUPPORTED
  | SIGNATURE_ERROR
  | VERIFY_NOT_SUPPORTED

text \<open>
  What a \<open>throw\<close> raises: one of the two MSL exception classes thrown with an error
  code (message and cause left out), or an error of the runtime that is no
  \<open>MslException\<close>.
\<close>

datatype exn =
    MslCryptoException MslError
  | MslEncodingException MslError
  | TypeError
  | OtherError

text \<open>
  Sequencing of statements that may throw: \<open>Inl\<close> is the exception, which skips the
  rest of the body.
\<close>

fun and_then :: "exn + 'a \<Rightarrow> ('a \<Rightarrow> exn + 'b) \<Rightarrow> exn + 'b" where
  "and_then (Inl e) f = Inl e"
| "and_then (Inr x) f = f x"

text \<open>
  The error taxonomy of the specification (its section 7), as a classification of what
  the code throws: a capability that is unavailable, a failed primitive, a malformed
  envelope, a protocol mismatch (unrecognised envelope version or cipher specification,
  key identifier mismatch). Its fifth class, the internal error, is the exception of the
  unreachable branch of \<open>toJSON\<close>.
\<close>

datatype category =
    EncodingError
  | CapabilityUnavailableError
  | CryptoOperationError
  | ProtocolMismatchError
  | InternalError
  | Unclassified

fun error_category :: "MslError \<Rightarrow> category" where
  "error_category UNIDENTIFIED_CIPHERTEXT_ENVELOPE = ProtocolMismatchError"
| "error_category UNSUPPORTED_CIPHERTEXT_ENVELOPE = ProtocolMismatchError"
| "error_category UNIDENTIFIED_CIPHERSPEC = ProtocolMismatchError"
| "error_category ENVELOPE_KEY_ID_MISMATCH = ProtocolMismatchError"
| "error_category JSON_PARSE_ERROR = EncodingError"
| "error_category CIPHERTEXT_ENVELOPE_PARSE_ERROR = EncodingError"
| "error_category CIPHERTEXT_ENVELOPE_ENCODE_ERROR = EncodingError"
| "error_category ENCRYPT_NOT_SUPPORTED = CapabilityUnavailableError"
| "error_category DECRYPT_NOT_SUPPORTED = CapabilityUnavailableError"
| "error_category WRAP_NOT_SUPPORTED = CapabilityUnavailableError"
| "error_category SIGN_NOT_SUPPORTED = CapabilityUnavailableError"
| "error_category VERIFY_NOT_SUPPORTED = CapabilityUnavailableError"
| "error_category ENCRYPT_ERROR = CryptoOperationError"
| "error_category DECRYPT_ERROR = CryptoOperationError"
| "error_category WRAP_ERROR = CryptoOperationError"
| "error_category SIGNATURE_ERROR = CryptoOperationError"

fun taxonomy :: "exn \<Rightarrow> category" where
  "taxonomy (MslCryptoException e) = error_category e"
| "taxonomy (MslEncodingException e) = error_category e"
| "taxonomy TypeError = Unclassified"
| "taxonomy OtherError = Unclassified"

section \<open>Collaborators of the envelope codec\<close>

text \<open>
  The envelope codec calls constants and utilities defined outside the two source files.
  They are the fields of one record, a parameter of the functions below:
  \<^item> \<open>CipherSpec\<close>: the enumeration object \<open>MslConstants$CipherSpec\<close>, as the list of its
    (name, value) properties in enumeration order;
  \<^item> \<open>CipherSpec_fromString\<close>: \<open>MslConstants$CipherSpec$fromString\<close>, \<open>None\<close> for null;
  \<^item> \<open>base64_encode\<close>, \<open>base64_decode\<close>: \<open>base64$encode\<close> and \<open>base64$decode\<close>,
    \<open>None\<close> when the decoder throws;
  \<^item> \<open>ToNumber\<close>: the runtime's conversion of a string, array or object operand of \<open>==\<close>.
\<close>

record externals =
  CipherSpec :: "(string \<times> string) list"
  CipherSpec_fromString :: "string \<Rightarrow> string option"
  base64_encode :: "bytes \<Rightarrow> string"
  base64_decode :: "string \<Rightarrow> bytes option"
  ToNumber :: "jsval \<Rightarrow> jsnum"

section \<open>MslCiphertextEnvelope.js\<close>

abbreviation KEY_VERSION :: string where "KEY_VERSION \<equiv> ''version''"
abbreviation KEY_KEY_ID :: string where "KEY_KEY_ID \<equiv> ''keyid''"
abbreviation KEY_CIPHERSPEC :: string where "KEY_CIPHERSPEC \<equiv> ''cipherspec''"
abbreviation KEY_IV :: string where "KEY_IV \<equiv> ''iv''"
abbreviation KEY_CIPHERTEXT :: string where "KEY_CIPHERTEXT \<equiv> ''ciphertext''"
abbreviation KEY_SHA256 :: string where "KEY_SHA256 \<equiv> ''sha256''"

datatype Version = V1 | V2

text \<open>The enumeration object \<open>{ V1 : 1, V2 : 2 }\<close> and the number of a version.\<close>

definition Version_enum :: "(string \<times> jsnum) list" where
  "Version_enum = [(''V1'', Fin 1), (''V2'', Fin 2)]"

fun Version_num :: "Version \<Rightarrow> jsnum" where
  "Version_num V1 = Fin 1"
| "Version_num V2 = Fin 2"

text \<open>
  The \<open>iv\<close> property of an envelope. \<open>create\<close> is given null or a \<open>Uint8Array\<close>; \<open>parse\<close>
  passes on either the decoded bytes or, when the JSON value is falsy, that value itself.
\<close>

datatype falsy = F_undefined | F_null | F_false | F_zero | F_NaN | F_empty_string

datatype ivval = Absent falsy | Bytes bytes

record MslCiphertextEnvelope =
  version :: Version
  keyId :: "string option"
  cipherSpec :: "string option"
  iv :: ivval
  ciphertext :: bytes

text \<open>
  The loop of \<open>init\<close> over the properties of \<open>MslConstants$CipherSpec\<close>: does one of
  them equal the first argument? Both sides are strings, so \<open>==\<close> is equality.
\<close>

fun is_cipher_spec :: "(string \<times> string) list \<Rightarrow> string \<Rightarrow> bool" where
  "is_cipher_spec [] keyIdOrSpec = False"
| "is_cipher_spec ((key, val) # rest) keyIdOrSpec =
     (if val = keyIdOrSpec then True else is_cipher_spec rest keyIdOrSpec)"

text \<open>
  \<open>init\<close> runs inside \<open>AsyncExecutor\<close>, throws nothing and returns \<open>this\<close>, which the
  executor delivers to \<open>callback.result\<close>: the model returns the envelope.
\<close>

definition init :: "externals \<Rightarrow> string \<Rightarrow> ivval \<Rightarrow> bytes \<Rightarrow> MslCiphertextEnvelope" where
  "init X keyIdOrSpec iv0 ciphertext0 =
     (if is_cipher_spec (CipherSpec X) keyIdOrSpec
      then \<lparr>version = V2, keyId = None, cipherSpec = Some keyIdOrSpec,
            iv = iv0, ciphertext = ciphertext0\<rparr>
      else \<lparr>version = V1, keyId = Some keyIdOrSpec, cipherSpec = None,
            iv = iv0, ciphertext = ciphertext0\<rparr>)"

definition MslCiphertextEnvelope_create ::
  "externals \<Rightarrow> string \<Rightarrow> ivval \<Rightarrow> bytes \<Rightarrow> MslCiphertextEnvelope" where
  "MslCiphertextEnvelope_create X keyIdOrCipherSpec iv0 ciphertext0 =
     init X keyIdOrCipherSpec iv0 ciphertext0"

text \<open>A string-or-null property as a JSON value.\<close>

fun js_of_string_option :: "string option \<Rightarrow> jsval" where
  "js_of_string_option None = JNull"
| "js_of_string_option (Some s) = JStr s"

text \<open>\<open>if (this.iv) result[KEY_IV] = base64$encode(this.iv)\<close>: a byte array is truthy.\<close>

fun iv_property :: "externals \<Rightarrow> ivval \<Rightarrow> (string \<times> jsval) list" where
  "iv_property X (Absent f) = []"
| "iv_property X (Bytes b) = [(KEY_IV, JStr (base64_encode X b))]"

text \<open>
  \<open>toJSON\<close>. The \<open>default\<close> branch of its \<open>switch\<close> throws an
  \<open>MslInternalException\<close>; the version of an envelope is \<open>V1\<close> or \<open>V2\<close> by its type,
  so the branch has no input and \<open>toJSON\<close> always returns.
\<close>

definition toJSON :: "externals \<Rightarrow> MslCiphertextEnvelope \<Rightarrow> (string \<times> jsval) list" where
  "toJSON X this =
     (case version this of
        V1 \<Rightarrow>
          [(KEY_KEY_ID, js_of_string_option (keyId this))]
          @ iv_property X (iv this)
          @ [(KEY_CIPHERTEXT, JStr (base64_encode X (ciphertext this))),
             (KEY_SHA256, JStr ''AA=='')]
      | V2 \<Rightarrow>
          [(KEY_VERSION, JNum (Version_num (version this))),
           (KEY_CIPHERSPEC, js_of_string_option (cipherSpec this))]
          @ iv_property X (iv this)
          @ [(KEY_CIPHERTEXT, JStr (base64_encode X (ciphertext this)))])"

text \<open>
  \<open>jsonObj[key]\<close> for one of the six keys above: undefined and null have no properties
  (a \<open>TypeError\<close>), an object has the ones its list binds, and every other value has
  none of these six.
\<close>

fun getprop :: "jsval \<Rightarrow> string \<Rightarrow> exn + jsval" where
  "getprop JUndefined k = Inl TypeError"
| "getprop JNull k = Inl TypeError"
| "getprop (JObj ps) k = Inr (case map_of ps k of None \<Rightarrow> JUndefined | Some v \<Rightarrow> v)"
| "getprop (JBool b) k = Inr JUndefined"
| "getprop (JNum n) k = Inr JUndefined"
| "getprop (JStr s) k = Inr JUndefined"
| "getprop (JArr xs) k = Inr JUndefined"

text \<open>The loop of \<open>parse\<close> over the properties of \<open>Version\<close>, on a number.\<close>

fun identified :: "(string \<times> jsnum) list \<Rightarrow> jsnum \<Rightarrow> bool" where
  "identified [] n = False"
| "identified ((v, val) # rest) n =
     (if num_eq val n then True else identified rest n)"

text \<open>
  The first block of \<open>parse\<close>: the version as a number. A hint is 1 or 2, hence truthy,
  and is taken as it is; without one the \<open>version\<close> property decides.
\<close>

fun determine_version :: "jsval \<Rightarrow> Version option \<Rightarrow> exn + jsnum" where
  "determine_version jsonObj (Some hint) = Inr (Version_num hint)"
| "determine_version jsonObj None =
     (case getprop jsonObj KEY_VERSION of
        Inl e \<Rightarrow> Inl e
      | Inr v \<Rightarrow>
          (case v of
             JNum n \<Rightarrow>
               if \<not> truthy v \<or> n = NaN then Inr (Fin 1)
               else if identified Version_enum n then Inr n
               else Inl (MslCryptoException UNIDENTIFIED_CIPHERTEXT_ENVELOPE)
           | _ \<Rightarrow> Inr (Fin 1)))"

text \<open>The field checks of the two \<open>case\<close> branches; each returns \<open>keyIdOrSpec\<close>.\<close>

definition parse_V1 :: "jsval \<Rightarrow> jsval \<Rightarrow> jsval \<Rightarrow> jsval \<Rightarrow> exn + string" where
  "parse_V1 keyId0 iv0 ciphertext0 sha256 =
     (if typeof keyId0 \<noteq> T_string
         \<or> (truthy iv0 \<and> typeof iv0 \<noteq> T_string)
         \<or> typeof ciphertext0 \<noteq> T_string
         \<or> typeof sha256 \<noteq> T_string
      then Inl (MslEncodingException JSON_PARSE_ERROR)
      else (case keyId0 of JStr s \<Rightarrow> Inr s | _ \<Rightarrow> Inl (MslEncodingException JSON_PARSE_ERROR)))"

definition parse_V2 ::
  "externals \<Rightarrow> jsval \<Rightarrow> jsval \<Rightarrow> jsval \<Rightarrow> jsval \<Rightarrow> exn + string" where
  "parse_V2 X v cipherSpec0 iv0 ciphertext0 =
     (if \<not> loose_eq_num (ToNumber X) v (Version_num V2)
      then Inl (MslCryptoException UNIDENTIFIED_CIPHERTEXT_ENVELOPE)
      else if typeof cipherSpec0 \<noteq> T_string
         \<or> (truthy iv0 \<and> typeof iv0 \<noteq> T_string)
         \<or> typeof ciphertext0 \<noteq> T_string
      then Inl (MslEncodingException JSON_PARSE_ERROR)
      else (case cipherSpec0 of
              JStr s \<Rightarrow>
                (case CipherSpec_fromString X s of
                   None \<Rightarrow> Inl (MslCryptoException UNIDENTIFIED_CIPHERSPEC)
                 | Some spec \<Rightarrow>
                     if spec = [] then Inl (MslCryptoException UNIDENTIFIED_CIPHERSPEC)
                     else Inr spec)
            | _ \<Rightarrow> Inl (MslEncodingException JSON_PARSE_ERROR)))"

text \<open>
  \<open>if (iv) iv = base64$decode(iv)\<close>: a falsy value stays as it is, a non-empty string is
  decoded (\<open>None\<close> when the decoder throws). A truthy value that is no string does not get
  here, the field checks having refused it; the decoder is taken to throw on it.
\<close>

fun decode_iv :: "externals \<Rightarrow> jsval \<Rightarrow> ivval option" where
  "decode_iv X JUndefined = Some (Absent F_undefined)"
| "decode_iv X JNull = Some (Absent F_null)"
| "decode_iv X (JBool b) = (if b then None else Some (Absent F_false))"
| "decode_iv X (JNum n) =
     (if n = NaN then Some (Absent F_NaN)
      else if n = Fin 0 then Some (Absent F_zero) else None)"
| "decode_iv X (JStr s) =
     (if s = [] then Some (Absent F_empty_string)
      else map_option Bytes (base64_decode X s))"
| "decode_iv X (JArr xs) = None"
| "decode_iv X (JObj ps) = None"

fun decode_ciphertext :: "externals \<Rightarrow> jsval \<Rightarrow> bytes option" where
  "decode_ciphertext X (JStr s) = base64_decode X s"
| "decode_ciphertext X v = None"

text \<open>
  The \<open>try\<close> block around the two decoder calls: whatever is thrown there becomes a
  \<open>CIPHERTEXT_ENVELOPE_PARSE_ERROR\<close>.
\<close>

definition decode_base64 :: "externals \<Rightarrow> jsval \<Rightarrow> jsval \<Rightarrow> exn + (ivval \<times> bytes)" where
  "decode_base64 X iv0 ciphertext0 =
     (case decode_iv X iv0 of
        None \<Rightarrow> Inl (MslCryptoException CIPHERTEXT_ENVELOPE_PARSE_ERROR)
      | Some iv1 \<Rightarrow>
          (case decode_ciphertext X ciphertext0 of
             None \<Rightarrow> Inl (MslCryptoException CIPHERTEXT_ENVELOPE_PARSE_ERROR)
           | Some ciphertext1 \<Rightarrow> Inr (iv1, ciphertext1)))"

text \<open>
  \<open>MslCiphertextEnvelope$parse\<close>. The body runs inside \<open>AsyncExecutor\<close>, so what it throws
  goes to \<open>callback.error\<close> (\<open>Inl\<close>); otherwise the new envelope goes to
  \<open>callback.result\<close> (\<open>Inr\<close>).
\<close>

definition MslCiphertextEnvelope_parse ::
  "externals \<Rightarrow> jsval \<Rightarrow> Version option \<Rightarrow> exn + MslCiphertextEnvelope" where
  "MslCiphertextEnvelope_parse X jsonObj hint =
     and_then (getprop jsonObj KEY_KEY_ID) (\<lambda>keyId0.
     and_then (getprop jsonObj KEY_CIPHERSPEC) (\<lambda>cipherSpec0.
     and_then (getprop jsonObj KEY_IV) (\<lambda>iv0.
     and_then (getprop jsonObj KEY_CIPHERTEXT) (\<lambda>ciphertext0.
     and_then (getprop jsonObj KEY_SHA256) (\<lambda>sha256.
     and_then (determine_version jsonObj hint) (\<lambda>version0.
     and_then
       (if version0 = Fin 1 then parse_V1 keyId0 iv0 ciphertext0 sha256
        else if version0 = Fin 2 then
          and_then (getprop jsonObj KEY_VERSION) (\<lambda>v.
            parse_V2 X v cipherSpec0 iv0 ciphertext0)
        else Inl (MslCryptoException UNSUPPORTED_CIPHERTEXT_ENVELOPE)) (\<lambda>keyIdOrSpec.
     and_then (decode_base64 X iv0 ciphertext0) (\<lambda>(iv1, ciphertext1).
     Inr (init X keyIdOrSpec iv1 ciphertext1)))))))))"

section \<open>RsaCryptoContext.js\<close>

text \<open>
  A transform or algorithm is the string \<open>"nullOp"\<close> or one of the algorithm objects
  \<open>WebCryptoAlgorithm.RSAES\<close>, \<open>RSA_OAEP\<close>, \<open>RSASSA_SHA256\<close>; an object is never \<open>==\<close>
  to that string.
\<close>

datatype algorithm = NULL_OP | RSAES | RSA_OAEP | RSASSA_SHA256

datatype Mode =
    ENCRYPT_DECRYPT_OAEP
  | ENCRYPT_DECRYPT_PKCS1
  | WRAP_UNWRAP_OAEP
  | WRAP_UNWRAP_PKCS1
  | SIGN_VERIFY

text \<open>
  Raw keys are objects of the crypto provider, told apart by a number. A key handle
  (\<open>PrivateKey\<close>, \<open>PublicKey\<close>, \<open>CipherKey\<close>) carries one in \<open>rawKey\<close>.
\<close>

type_synonym rawkey = nat

record KeyHandle =
  rawKey :: rawkey

record RsaCryptoContext =
  id_ctx :: string
  privateKey :: "rawkey option"
  publicKey :: "rawkey option"
  transform :: algorithm
  wrapTransform :: algorithm
  algo :: algorithm

text \<open>
  The constructor; key arguments may be null (\<open>None\<close>). Its first parameter, the MSL
  context, is not used by the body and is left out.
\<close>

definition RsaCryptoContext_init ::
  "string \<Rightarrow> KeyHandle option \<Rightarrow> KeyHandle option \<Rightarrow> Mode \<Rightarrow> RsaCryptoContext" where
  "RsaCryptoContext_init id0 privateKey0 publicKey0 mode =
     \<lparr>id_ctx = id0,
      privateKey = map_option rawKey privateKey0,
      publicKey = map_option rawKey publicKey0,
      transform =
        (if mode = ENCRYPT_DECRYPT_PKCS1 then RSAES
         else if mode = ENCRYPT_DECRYPT_OAEP then RSA_OAEP
         else NULL_OP),
      wrapTransform =
        (if mode = WRAP_UNWRAP_PKCS1 then RSAES
         else if mode = WRAP_UNWRAP_OAEP then RSA_OAEP
         else NULL_OP),
      algo = (if mode = SIGN_VERIFY then RSASSA_SHA256 else NULL_OP)\<rparr>"

text \<open>
  The asynchronous crypto-primitive provider \<open>mslCrypto\<close>. A call returns a promise,
  which is fulfilled with a value, rejected, or never settled. The other collaborators
  of the context:
  \<^item> \<open>stringify_bytes\<close>: \<open>JSON.stringify\<close> of the object \<open>toJSON\<close> returns, followed by
    \<open>textEncoding$getBytes\<close>; \<open>None\<close> when either throws;
  \<^item> \<open>parse_bytes\<close>: \<open>textEncoding$getString\<close> followed by \<open>JSON.parse\<close>; the error
    says whether a \<open>SyntaxError\<close> was thrown (\<open>True\<close>) or something else;
  \<^item> \<open>MslSignatureEnvelope_create\<close>: the bytes of the signature envelope made from a
    signature, and \<open>MslSignatureEnvelope_parse\<close>: the signature in the bytes of a version
    1 signature envelope, each with the error it delivers instead.
\<close>

datatype 'a promise = Fulfilled 'a | Rejected | Pending

record provider =
  mslCrypto_encrypt :: "algorithm \<Rightarrow> rawkey \<Rightarrow> bytes \<Rightarrow> bytes promise"
  mslCrypto_decrypt :: "algorithm \<Rightarrow> rawkey \<Rightarrow> bytes \<Rightarrow> bytes promise"
  mslCrypto_wrapKey :: "rawkey \<Rightarrow> rawkey \<Rightarrow> algorithm \<Rightarrow> bytes promise"
  mslCrypto_sign :: "algorithm \<Rightarrow> rawkey \<Rightarrow> bytes \<Rightarrow> bytes promise"
  mslCrypto_verify :: "algorithm \<Rightarrow> rawkey \<Rightarrow> bytes \<Rightarrow> bytes \<Rightarrow> bool promise"
  stringify_bytes :: "(string \<times> jsval) list \<Rightarrow> bytes option"
  parse_bytes :: "bytes \<Rightarrow> bool + jsval"
  MslSignatureEnvelope_create :: "bytes \<Rightarrow> exn + bytes"
  MslSignatureEnvelope_parse :: "bytes \<Rightarrow> exn + bytes"

text \<open>
  Modelled from the spec: \<open>AsyncExecutor\<close>, which is defined outside the two source
  files. It is the scoped guard of the specification's section 5: it runs the body of an
  operation, delivers a value that the body returns to \<open>callback.result\<close> and an
  exception that the body throws to \<open>callback.error\<close>. A body that returns nothing has
  left the delivery to the continuations of a promise, and a promise that never settles
  leaves the callback without a call. What an operation does is then the calls it makes
  to the provider, in order, and what its callback receives.
\<close>

datatype call =
    Call_encrypt algorithm rawkey bytes
  | Call_decrypt algorithm rawkey bytes
  | Call_wrapKey rawkey rawkey algorithm
  | Call_sign algorithm rawkey bytes
  | Call_verify algorithm rawkey bytes bytes

datatype 'a delivery = Callback_result 'a | Callback_error exn | No_callback

definition encrypt ::
  "provider \<Rightarrow> externals \<Rightarrow> RsaCryptoContext \<Rightarrow> bytes \<Rightarrow> call list \<times> bytes delivery" where
  "encrypt P X self data =
     (if transform self = NULL_OP then ([], Callback_result data)
      else (case publicKey self of
        None \<Rightarrow> ([], Callback_error (MslCryptoException ENCRYPT_NOT_SUPPORTED))
      | Some pk \<Rightarrow>
          if length data = 0 then ([], Callback_result data)
          else
            ([Call_encrypt (transform self) pk data],
             (case mslCrypto_encrypt P (transform self) pk data of
                Fulfilled ciphertext0 \<Rightarrow>
                  (case stringify_bytes P
                          (toJSON X (MslCiphertextEnvelope_create X (id_ctx self)
                                       (Absent F_null) ciphertext0)) of
                     Some json \<Rightarrow> Callback_result json
                   | None \<Rightarrow> Callback_error (MslCryptoException ENCRYPT_ERROR))
              | Rejected \<Rightarrow> Callback_error (MslCryptoException ENCRYPT_ERROR)
              | Pending \<Rightarrow> No_callback))))"

text \<open>
  The \<open>error\<close> callback that \<open>decrypt\<close> gives to the envelope parser: an encoding
  exception becomes a crypto exception, and what is no \<open>MslException\<close> a decrypt error.
\<close>

fun decrypt_parse_error :: "exn \<Rightarrow> exn" where
  "decrypt_parse_error (MslEncodingException e) =
     MslCryptoException CIPHERTEXT_ENVELOPE_ENCODE_ERROR"
| "decrypt_parse_error (MslCryptoException e) = MslCryptoException e"
| "decrypt_parse_error TypeError = MslCryptoException DECRYPT_ERROR"
| "decrypt_parse_error OtherError = MslCryptoException DECRYPT_ERROR"

definition decrypt ::
  "provider \<Rightarrow> externals \<Rightarrow> RsaCryptoContext \<Rightarrow> bytes \<Rightarrow> call list \<times> bytes delivery" where
  "decrypt P X self data =
     (if transform self = NULL_OP then ([], Callback_result data)
      else (case privateKey self of
        None \<Rightarrow> ([], Callback_error (MslCryptoException DECRYPT_NOT_SUPPORTED))
      | Some sk \<Rightarrow>
          if length data = 0 then ([], Callback_result data)
          else (case parse_bytes P data of
            Inl syntax_error \<Rightarrow>
              ([], Callback_error (MslCryptoException
                     (if syntax_error then CIPHERTEXT_ENVELOPE_PARSE_ERROR else DECRYPT_ERROR)))
          | Inr jo \<Rightarrow>
              (case MslCiphertextEnvelope_parse X jo (Some V1) of
                 Inl e \<Rightarrow> ([], Callback_error (decrypt_parse_error e))
               | Inr envelope \<Rightarrow>
                   if keyId envelope \<noteq> Some (id_ctx self)
                   then ([], Callback_error (MslCryptoException ENVELOPE_KEY_ID_MISMATCH))
                   else
                     ([Call_decrypt (transform self) sk (ciphertext envelope)],
                      (case mslCrypto_decrypt P (transform self) sk (ciphertext envelope) of
                         Fulfilled plaintext \<Rightarrow> Callback_result plaintext
                       | Rejected \<Rightarrow> Callback_error (MslCryptoException DECRYPT_ERROR)
                       | Pending \<Rightarrow> No_callback))))))"

definition wrap ::
  "provider \<Rightarrow> RsaCryptoContext \<Rightarrow> KeyHandle \<Rightarrow> call list \<times> bytes delivery" where
  "wrap P self key =
     (if wrapTransform self = NULL_OP \<or> publicKey self = None
      then ([], Callback_error (MslCryptoException WRAP_NOT_SUPPORTED))
      else (case publicKey self of
        None \<Rightarrow> ([], Callback_error (MslCryptoException WRAP_NOT_SUPPORTED))
      | Some pk \<Rightarrow>
          ([Call_wrapKey (rawKey key) pk (wrapTransform self)],
           (case mslCrypto_wrapKey P (rawKey key) pk (wrapTransform self) of
              Fulfilled wrapped \<Rightarrow> Callback_result wrapped
            | Rejected \<Rightarrow> Callback_error (MslCryptoException WRAP_ERROR)
            | Pending \<Rightarrow> No_callback))))"

definition sign ::
  "provider \<Rightarrow> RsaCryptoContext \<Rightarrow> bytes \<Rightarrow> call list \<times> bytes delivery" where
  "sign P self data =
     (if algo self = NULL_OP then ([], Callback_result [])
      else (case privateKey self of
        None \<Rightarrow> ([], Callback_error (MslCryptoException SIGN_NOT_SUPPORTED))
      | Some sk \<Rightarrow>
          ([Call_sign (algo self) sk data],
           (case mslCrypto_sign P (algo self) sk data of
              Fulfilled hash \<Rightarrow>
                (case MslSignatureEnvelope_create P hash of
                   Inr envelope_bytes \<Rightarrow> Callback_result envelope_bytes
                 | Inl e \<Rightarrow> Callback_error e)
            | Rejected \<Rightarrow> Callback_error (MslCryptoException SIGNATURE_ERROR)
            | Pending \<Rightarrow> No_callback))))"

definition verify ::
  "provider \<Rightarrow> RsaCryptoContext \<Rightarrow> bytes \<Rightarrow> bytes \<Rightarrow> call list \<times> bool delivery" where
  "verify P self data signature =
     (if algo self = NULL_OP then ([], Callback_result True)
      else (case publicKey self of
        None \<Rightarrow> ([], Callback_error (MslCryptoException VERIFY_NOT_SUPPORTED))
      | Some pk \<Rightarrow>
          (case MslSignatureEnvelope_parse P signature of
             Inl e \<Rightarrow> ([], Callback_error e)
           | Inr envelope_signature \<Rightarrow>
               ([Call_verify (algo self) pk envelope_signature data],
                (case mslCrypto_verify P (algo self) pk envelope_signature data of
                   Fulfilled valid \<Rightarrow> Callback_result valid
                 | Rejected \<Rightarrow> Callback_error (MslCryptoException SIGNATURE_ERROR)
                 | Pending \<Rightarrow> No_callback)))))"

section \<open>Concrete collaborators\<close>

text \<open>
  Modelled from the spec: the enumeration \<open>MslConstants$CipherSpec\<close> and
  \<open>MslConstants$CipherSpec$fromString\<close>, which are defined outside the two source files.
  The specification names one recognised cipher specification, AES-CBC with PKCS#5
  padding, whose string the envelope's documentation gives as \<open>AES/CBC/PKCS5Padding\<close>;
  a string maps to the enumeration value it equals, and to null otherwise.
\<close>

definition MslConstants_CipherSpec :: "(string \<times> string) list" where
  "MslConstants_CipherSpec = [(''AES_CBC_PKCS5Padding'', ''AES/CBC/PKCS5Padding'')]"

definition MslConstants_CipherSpec_fromString :: "string \<Rightarrow> string option" where
  "MslConstants_CipherSpec_fromString s =
     (if is_cipher_spec MslConstants_CipherSpec s then Some s else None)"

text \<open>
  Modelled from the spec: the base64 utilities \<open>base64$encode\<close> and \<open>base64$decode\<close>,
  which the specification lists as an external collaborator and which are not among the
  source files. This is the standard alphabet with \<open>=\<close> padding; the decoder refuses
  (throws on) a length that is no multiple of four and any other character.
\<close>

definition base64_alphabet :: string where
  "base64_alphabet =
     ''ABCDEFGHIJKLMNOPQRSTUVWXYZabcdefghijklmnopqrstuvwxyz0123456789+/''"

definition sextet_char :: "8 word \<Rightarrow> char" where
  "sextet_char w = base64_alphabet ! unat (w AND 63)"

fun base64_enc :: "bytes \<Rightarrow> string" where
  "base64_enc [] = []"
| "base64_enc [a] =
     [sextet_char (drop_bit 2 a), sextet_char (push_bit 4 a), CHR ''='', CHR ''='']"
| "base64_enc [a, b] =
     [sextet_char (drop_bit 2 a), sextet_char (push_bit 4 a OR drop_bit 4 b),
      sextet_char (push_bit 2 b), CHR ''='']"
| "base64_enc (a # b # c # rest) =
     [sextet_char (drop_bit 2 a), sextet_char (push_bit 4 a OR drop_bit 4 b),
      sextet_char (push_bit 2 b OR drop_bit 6 c), sextet_char c] @ base64_enc rest"

fun index_of :: "char \<Rightarrow> string \<Rightarrow> nat option" where
  "index_of c [] = None"
| "index_of c (d # ds) = (if c = d then Some 0 else map_option Suc (index_of c ds))"

definition char_sextet :: "char \<Rightarrow> 8 word option" where
  "char_sextet c = map_option of_nat (index_of c base64_alphabet)"

fun base64_dec :: "string \<Rightarrow> bytes option" where
  "base64_dec [] = Some []"
| "base64_dec (c1 # c2 # c3 # c4 # rest) =
     (case (char_sextet c1, char_sextet c2) of
        (Some v1, Some v2) \<Rightarrow>
          (if rest = [] \<and> c3 = CHR ''='' \<and> c4 = CHR ''=''
           then Some [push_bit 2 v1 OR drop_bit 4 v2]
           else (case char_sextet c3 of
             None \<Rightarrow> None
           | Some v3 \<Rightarrow>
               (if rest = [] \<and> c4 = CHR ''=''
                then Some [push_bit 2 v1 OR drop_bit 4 v2, push_bit 4 v2 OR drop_bit 2 v3]
                else (case (char_sextet c4, base64_dec rest) of
                  (Some v4, Some decoded) \<Rightarrow>
                    Some ([push_bit 2 v1 OR drop_bit 4 v2, push_bit 4 v2 OR drop_bit 2 v3,
                           push_bit 6 v3 OR v4] @ decoded)
                | _ \<Rightarrow> None))))
      | _ \<Rightarrow> None)"
| "base64_dec cs = None"

text \<open>
  The numeric conversion of the runtime on the operands the examples below use: the
  empty string is 0 and a string of decimal digits is its value. The other numeric
  literals (sign, fraction, exponent, radix prefix, surrounding white space) and array
  operands are not among them; they are NaN here.
\<close>

fun digits_value :: "string \<Rightarrow> nat \<Rightarrow> nat option" where
  "digits_value [] acc = Some acc"
| "digits_value (c # cs) acc =
     (if (48::nat) \<le> of_char c \<and> of_char c \<le> (57::nat)
      then digits_value cs (10 * acc + (of_char c - 48))
      else None)"

fun ToNumber_digits :: "jsval \<Rightarrow> jsnum" where
  "ToNumber_digits (JStr s) =
     (case digits_value s 0 of None \<Rightarrow> NaN | Some n \<Rightarrow> Fin (of_nat n))"
| "ToNumber_digits v = NaN"

definition example_externals :: externals where
  "example_externals =
     \<lparr>CipherSpec = MslConstants_CipherSpec,
      CipherSpec_fromString = MslConstants_CipherSpec_fromString,
      base64_encode = base64_enc,
      base64_decode = base64_dec,
      ToNumber = ToNumber_digits\<rparr>"

text \<open>
  A provider that rejects every promise, with collaborators that throw on every call:
  for the operations that are shown to finish without reaching any of them.
\<close>

definition failing_provider :: provider where
  "failing_provider =
     \<lparr>mslCrypto_encrypt = (\<lambda>t k d. Rejected),
      mslCrypto_decrypt = (\<lambda>t k d. Rejected),
      mslCrypto_wrapKey = (\<lambda>k w t. Rejected),
      mslCrypto_sign = (\<lambda>t k d. Rejected),
      mslCrypto_verify = (\<lambda>t k s d. Rejected),
      stringify_bytes = (\<lambda>obj. None),
      parse_bytes = (\<lambda>d. Inl True),
      MslSignatureEnvelope_create = (\<lambda>s. Inl OtherError),
      MslSignatureEnvelope_parse = (\<lambda>b. Inl OtherError)\<rparr>"

section \<open>Properties of the envelope codec\<close>

subsection \<open>Auxiliary facts\<close>

lemma is_cipher_spec_iff: "is_cipher_spec specs s \<longleftrightarrow> s \<in> snd ` set specs"
  by (induction specs s rule: is_cipher_spec.induct) auto

lemma map_of_iv_property:
  "k \<noteq> KEY_IV \<Longrightarrow> map_of (iv_property X i) k = None"
  by (cases i) auto

lemma getprop_total:
  assumes "getprop jsonObj k = Inr v"
  obtains w where "getprop jsonObj k' = Inr w"
  using assms by (cases jsonObj) auto

lemma identified_Version_enum:
  "identified Version_enum n \<longleftrightarrow> n = Fin 1 \<or> n = Fin 2"
  by (auto simp: Version_enum_def num_eq_def)

lemma determine_version_falsy:
  assumes "getprop jsonObj KEY_VERSION = Inr v"
    and "v = JUndefined \<or> typeof v \<noteq> T_number \<or> v = JNum NaN \<or> v = JNum (Fin 0)"
  shows "determine_version jsonObj None = Inr (Fin 1)"
  using assms by (cases v) auto

lemma parse_determine_version_Inl:
  assumes "getprop jsonObj KEY_VERSION = Inr v"
    and "determine_version jsonObj hint = Inl e"
  shows "MslCiphertextEnvelope_parse X jsonObj hint = Inl e"
  using assms by (cases jsonObj) (simp_all add: MslCiphertextEnvelope_parse_def)

lemma parse_determine_version_cong:
  assumes "determine_version jsonObj hint = determine_version jsonObj hint'"
  shows "MslCiphertextEnvelope_parse X jsonObj hint
           = MslCiphertextEnvelope_parse X jsonObj hint'"
  using assms by (simp add: MslCiphertextEnvelope_parse_def)


subsection \<open>The base64 model: decoding inverts encoding\<close>













subsection \<open>Round trip of a version 1 envelope\<close>




subsection \<open>The version of a parsed object\<close>

text \<open>
  Claim C3, as amended. For every JSON object parsed without a version hint: when its
  \<open>version\<close> property is absent, is no number, is NaN or is 0, the object is parsed as a
  version 1 envelope (the outcome is that of parsing with the hint \<open>V1\<close>); when it is a
  number other than NaN, 0, 1 and 2, parsing fails with the crypto exception
  \<open>UNIDENTIFIED_CIPHERTEXT_ENVELOPE\<close>, a protocol mismatch.
\<close>

theorem parse_without_hint:
  assumes "getprop jsonObj KEY_VERSION = Inr v"
  shows "(v = JUndefined \<or> typeof v \<noteq> T_number \<or> v = JNum NaN \<or> v = JNum (Fin 0) \<longrightarrow>
            MslCiphertextEnvelope_parse X jsonObj None
              = MslCiphertextEnvelope_parse X jsonObj (Some V1))
       \<and> (\<forall>n. v = JNum n \<and> n \<noteq> NaN \<and> n \<noteq> Fin 0 \<and> n \<noteq> Fin 1 \<and> n \<noteq> Fin 2 \<longrightarrow>
            MslCiphertextEnvelope_parse X jsonObj None
              = Inl (MslCryptoException UNIDENTIFIED_CIPHERTEXT_ENVELOPE))
       \<and> taxonomy (MslCryptoException UNIDENTIFIED_CIPHERTEXT_ENVELOPE) = ProtocolMismatchError"
proof (intro conjI impI allI)
  assume "v = JUndefined \<or> typeof v \<noteq> T_number \<or> v = JNum NaN \<or> v = JNum (Fin 0)"
  with assms have "determine_version jsonObj None = Inr (Fin 1)"
    by (rule determine_version_falsy)
  then have "determine_version jsonObj None = determine_version jsonObj (Some V1)"
    by simp
  then show "MslCiphertextEnvelope_parse X jsonObj None
      = MslCiphertextEnvelope_parse X jsonObj (Some V1)"
    by (rule parse_determine_version_cong)
next
  fix n
  assume n: "v = JNum n \<and> n \<noteq> NaN \<and> n \<noteq> Fin 0 \<and> n \<noteq> Fin 1 \<and> n \<noteq> Fin 2"
  with assms have "determine_version jsonObj None
      = Inl (MslCryptoException UNIDENTIFIED_CIPHERTEXT_ENVELOPE)"
    by (simp add: identified_Version_enum)
  with assms show "MslCiphertextEnvelope_parse X jsonObj None
      = Inl (MslCryptoException UNIDENTIFIED_CIPHERTEXT_ENVELOPE)"
    by (rule parse_determine_version_Inl)
next
  show "taxonomy (MslCryptoException UNIDENTIFIED_CIPHERTEXT_ENVELOPE) = ProtocolMismatchError"
    by simp
qed

text \<open>
  An object whose \<open>version\<close> is the string \<open>2\<close> is parsed as version 1, and one whose
  \<open>version\<close> is the number 99 is refused.
\<close>

theorem parse_without_hint_witness:
  "MslCiphertextEnvelope_parse example_externals
     (JObj [(''version'', JStr ''2''), (''keyid'', JStr ''k''),
            (''ciphertext'', JStr ''AA==''), (''sha256'', JStr ''AA=='')]) None
   = Inr \<lparr>version = V1, keyId = Some ''k'', cipherSpec = None,
          iv = Absent F_undefined, ciphertext = [0]\<rparr>
   \<and> MslCiphertextEnvelope_parse example_externals
       (JObj [(''version'', JNum (Fin 99)), (''keyid'', JStr ''k''),
              (''ciphertext'', JStr ''AA==''), (''sha256'', JStr ''AA=='')]) None
     = Inl (MslCryptoException UNIDENTIFIED_CIPHERTEXT_ENVELOPE)"
proof -
  let ?A = "JObj [(''version'', JStr ''2''), (''keyid'', JStr ''k''),
                  (''ciphertext'', JStr ''AA==''), (''sha256'', JStr ''AA=='')]"
  let ?B = "JObj [(''version'', JNum (Fin 99)), (''keyid'', JStr ''k''),
                  (''ciphertext'', JStr ''AA==''), (''sha256'', JStr ''AA=='')]"
  have a: "getprop ?A KEY_VERSION = Inr (JStr ''2'')"
    by simp
  have b: "getprop ?B KEY_VERSION = Inr (JNum (Fin 99))"
    by simp
  have hinted: "MslCiphertextEnvelope_parse example_externals ?A (Some V1)
      = Inr \<lparr>version = V1, keyId = Some ''k'', cipherSpec = None,
             iv = Absent F_undefined, ciphertext = [0]\<rparr>"
    by (simp add: MslCiphertextEnvelope_parse_def parse_V1_def decode_base64_def init_def
        example_externals_def MslConstants_CipherSpec_def char_sextet_def base64_alphabet_def)
  from parse_without_hint [OF a, of example_externals]
    parse_without_hint [OF b, of example_externals] hinted
  show ?thesis
    by simp
qed

text \<open>
  Claim C3 as stated fails at the version 0: it is a number and no recognized version,
  yet it is falsy, so the object is parsed as a version 1 envelope, here with success.
\<close>

theorem parse_version_zero_counterexample:
  "MslCiphertextEnvelope_parse example_externals
     (JObj [(''version'', JNum (Fin 0)), (''keyid'', JStr ''k''),
            (''ciphertext'', JStr ''AA==''), (''sha256'', JStr ''AA=='')]) None
   = Inr \<lparr>version = V1, keyId = Some ''k'', cipherSpec = None,
          iv = Absent F_undefined, ciphertext = [0]\<rparr>"
  by (simp add: MslCiphertextEnvelope_parse_def parse_V1_def decode_base64_def init_def
      example_externals_def MslConstants_CipherSpec_def char_sextet_def base64_alphabet_def)

subsection \<open>The placeholder in the sha256 property\<close>

text \<open>
  Claim C7. For every version 1 envelope, whatever its key identifier, initialization
  vector and ciphertext, and whatever the base64 encoder, the object that \<open>toJSON\<close>
  returns has the \<open>sha256\<close> property \<open>AA==\<close>: a fixed string, computed from nothing.
\<close>

theorem toJSON_V1_sha256_placeholder:
  assumes "version this = V1"
  shows "getprop (JObj (toJSON X this)) KEY_SHA256 = Inr (JStr ''AA=='')"
  using assms by (simp add: toJSON_def map_add_def map_of_iv_property)

theorem toJSON_V1_sha256_placeholder_witness:
  "version (MslCiphertextEnvelope_create example_externals ''key-1'' (Bytes [1, 2]) [3, 4, 5])
     = V1
   \<and> getprop (JObj (toJSON example_externals
        (MslCiphertextEnvelope_create example_externals ''key-1'' (Bytes [1, 2]) [3, 4, 5])))
        KEY_SHA256 = Inr (JStr ''AA=='')"
proof -
  have v: "version (MslCiphertextEnvelope_create example_externals ''key-1''
             (Bytes [1, 2]) [3, 4, 5]) = V1"
    by (simp add: MslCiphertextEnvelope_create_def init_def example_externals_def
        MslConstants_CipherSpec_def)
  from toJSON_V1_sha256_placeholder [OF v, of example_externals] v show ?thesis
    by simp
qed

subsection \<open>Unrecognized cipher specifications\<close>

text \<open>
  Claim C8, as amended. Let a JSON object be parsed as a version 2 envelope: with the
  hint \<open>V2\<close> and a \<open>version\<close> property that \<open>==\<close> 2, or without a hint and with the
  \<open>version\<close> property 2. If its \<open>cipherspec\<close> property is a string that
  \<open>fromString\<close> maps to null, its \<open>ciphertext\<close> property is a string and its \<open>iv\<close>
  property is falsy or a string, then parsing fails with the crypto exception
  \<open>UNIDENTIFIED_CIPHERSPEC\<close>, a protocol mismatch.
\<close>

theorem parse_V2_unknown_cipherspec:
  assumes "getprop jsonObj KEY_VERSION = Inr v"
    and "hint = Some V2 \<and> loose_eq_num (ToNumber X) v (Fin 2)
         \<or> hint = None \<and> v = JNum (Fin 2)"
    and "getprop jsonObj KEY_CIPHERSPEC = Inr (JStr s)"
    and "CipherSpec_fromString X s = None"
    and "getprop jsonObj KEY_IV = Inr iv0"
    and "\<not> truthy iv0 \<or> typeof iv0 = T_string"
    and "getprop jsonObj KEY_CIPHERTEXT = Inr (JStr c)"
  shows "MslCiphertextEnvelope_parse X jsonObj hint
           = Inl (MslCryptoException UNIDENTIFIED_CIPHERSPEC)
       \<and> taxonomy (MslCryptoException UNIDENTIFIED_CIPHERSPEC) = ProtocolMismatchError"
proof -
  from assms(2) have dv: "determine_version jsonObj hint = Inr (Fin 2)"
    using assms(1) by (auto simp: identified_Version_enum)
  from assms(2) have eq: "loose_eq_num (ToNumber X) v (Fin 2)"
    by (auto simp: num_eq_def)
  obtain k where k: "getprop jsonObj KEY_KEY_ID = Inr k"
    using assms(1) by (rule getprop_total)
  obtain h where h: "getprop jsonObj KEY_SHA256 = Inr h"
    using assms(1) by (rule getprop_total)
  show ?thesis
    using assms(1,3,4,5,6,7) dv eq k h
    by (simp add: MslCiphertextEnvelope_parse_def parse_V2_def)
qed

text \<open>
  The object \<open>{"version":2,"cipherspec":"UNKNOWN","ciphertext":"AA=="}\<close>, parsed
  without a hint.
\<close>

theorem parse_V2_unknown_cipherspec_witness:
  "MslCiphertextEnvelope_parse example_externals
     (JObj [(''version'', JNum (Fin 2)), (''cipherspec'', JStr ''UNKNOWN''),
            (''ciphertext'', JStr ''AA=='')]) None
   = Inl (MslCryptoException UNIDENTIFIED_CIPHERSPEC)"
proof -
  let ?obj = "JObj [(''version'', JNum (Fin 2)), (''cipherspec'', JStr ''UNKNOWN''),
                    (''ciphertext'', JStr ''AA=='')]"
  have a: "getprop ?obj KEY_VERSION = Inr (JNum (Fin 2))"
    by simp
  have b: "(None :: Version option) = Some V2
             \<and> loose_eq_num (ToNumber example_externals) (JNum (Fin 2)) (Fin 2)
           \<or> (None :: Version option) = None \<and> JNum (Fin 2) = JNum (Fin 2)"
    by simp
  have c: "getprop ?obj KEY_CIPHERSPEC = Inr (JStr ''UNKNOWN'')"
    by simp
  have d: "CipherSpec_fromString example_externals ''UNKNOWN'' = None"
    by (simp add: example_externals_def MslConstants_CipherSpec_fromString_def
        MslConstants_CipherSpec_def)
  have e: "getprop ?obj KEY_IV = Inr JUndefined"
    by simp
  have f: "\<not> truthy JUndefined \<or> typeof JUndefined = T_string"
    by simp
  have g: "getprop ?obj KEY_CIPHERTEXT = Inr (JStr ''AA=='')"
    by simp
  from parse_V2_unknown_cipherspec [OF a b c d e f g] show ?thesis
    by simp
qed

text \<open>
  Claim C8 as stated fails at the object \<open>{"version":2,"cipherspec":"UNKNOWN"}\<close>: the
  field checks come before the cipher specification is looked up, and the missing
  \<open>ciphertext\<close> makes them throw the encoding exception \<open>JSON_PARSE_ERROR\<close>.
\<close>

theorem parse_V2_unknown_cipherspec_counterexample:
  "MslCiphertextEnvelope_parse example_externals
     (JObj [(''version'', JNum (Fin 2)), (''cipherspec'', JStr ''UNKNOWN'')]) None
   = Inl (MslEncodingException JSON_PARSE_ERROR)
   \<and> taxonomy (MslEncodingException JSON_PARSE_ERROR) \<noteq> ProtocolMismatchError"
  by (simp add: MslCiphertextEnvelope_parse_def parse_V2_def Version_enum_def num_eq_def)

subsection \<open>Key identifier or cipher specification\<close>

text \<open>
  Claim C9. For every initialization vector and ciphertext, \<open>create\<close> with a first
  argument that equals a value of the cipher specification enumeration builds a version
  2 envelope whose key identifier is null and whose cipher specification is that
  argument; and \<open>create\<close> never builds a version 1 envelope whose key identifier is a
  value of the enumeration.
\<close>

theorem create_cipher_spec_is_V2:
  "(s \<in> snd ` set (CipherSpec X) \<longrightarrow>
      MslCiphertextEnvelope_create X s iv0 ct
        = \<lparr>version = V2, keyId = None, cipherSpec = Some s, iv = iv0, ciphertext = ct\<rparr>)
   \<and> \<not> (version (MslCiphertextEnvelope_create X k iv0 ct) = V1
         \<and> (\<exists>spec \<in> snd ` set (CipherSpec X).
               keyId (MslCiphertextEnvelope_create X k iv0 ct) = Some spec))"
  by (auto simp: MslCiphertextEnvelope_create_def init_def is_cipher_spec_iff)

theorem create_cipher_spec_is_V2_witness:
  "''AES/CBC/PKCS5Padding'' \<in> snd ` set (CipherSpec example_externals)
   \<and> MslCiphertextEnvelope_create example_externals ''AES/CBC/PKCS5Padding''
       (Bytes [1, 2]) [3, 4, 5]
     = \<lparr>version = V2, keyId = None, cipherSpec = Some ''AES/CBC/PKCS5Padding'',
        iv = Bytes [1, 2], ciphertext = [3, 4, 5]\<rparr>"
proof -
  have a: "''AES/CBC/PKCS5Padding'' \<in> snd ` set (CipherSpec example_externals)"
    by (simp add: example_externals_def MslConstants_CipherSpec_def)
  from create_cipher_spec_is_V2
         [of "''AES/CBC/PKCS5Padding''" example_externals "Bytes [1, 2]" "[3, 4, 5]"] a
  show ?thesis
    by blast
qed

subsection \<open>The version property under a version 2 hint\<close>



section \<open>Properties of the RSA crypto context\<close>

subsection \<open>Encrypting nothing\<close>

text \<open>
  Claim C2, as amended. For every context constructed in one of the two
  encrypt/decrypt modes with a public key, \<open>encrypt\<close> of the byte sequence of length
  zero delivers that byte sequence as the result and calls the provider not once.
\<close>

theorem encrypt_empty_with_public_key:
  assumes "mode = ENCRYPT_DECRYPT_OAEP \<or> mode = ENCRYPT_DECRYPT_PKCS1"
  shows "encrypt P X (RsaCryptoContext_init id0 sk (Some pk) mode) []
           = ([], Callback_result [])"
  using assms by (auto simp: encrypt_def RsaCryptoContext_init_def)

theorem encrypt_empty_with_public_key_witness:
  "encrypt failing_provider example_externals
     (RsaCryptoContext_init ''rsa-1'' None (Some \<lparr>rawKey = 7\<rparr>) ENCRYPT_DECRYPT_PKCS1) []
   = ([], Callback_result [])"
proof -
  have a: "ENCRYPT_DECRYPT_PKCS1 = ENCRYPT_DECRYPT_OAEP
           \<or> ENCRYPT_DECRYPT_PKCS1 = ENCRYPT_DECRYPT_PKCS1"
    by simp
  from encrypt_empty_with_public_key [OF a] show ?thesis
    by simp
qed

text \<open>
  Claim C2 as stated fails for a context that was given no public key: the check of the
  key comes before the check of the length, and the callback receives the crypto
  exception \<open>ENCRYPT_NOT_SUPPORTED\<close>.
\<close>

theorem encrypt_empty_without_public_key_counterexample:
  "encrypt failing_provider example_externals
     (RsaCryptoContext_init ''rsa-1'' None None ENCRYPT_DECRYPT_OAEP) []
   = ([], Callback_error (MslCryptoException ENCRYPT_NOT_SUPPORTED))"
  by (simp add: encrypt_def RsaCryptoContext_init_def)

subsection \<open>Wrapping without a wrap transform\<close>

text \<open>
  Claim C4. For every context constructed in a mode other than the two wrap/unwrap
  modes, whatever its keys, the wrap transform is the null operation, and \<open>wrap\<close> of any
  key handle delivers the crypto exception \<open>WRAP_NOT_SUPPORTED\<close>, which says that the
  capability is unavailable; the provider is not called and no result is delivered,
  the key's raw material included.
\<close>

theorem wrap_inactive_not_supported:
  assumes "mode \<noteq> WRAP_UNWRAP_OAEP" and "mode \<noteq> WRAP_UNWRAP_PKCS1"
  shows "wrapTransform (RsaCryptoContext_init id0 sk pk mode) = NULL_OP
    \<and> wrap P (RsaCryptoContext_init id0 sk pk mode) key
        = ([], Callback_error (MslCryptoException WRAP_NOT_SUPPORTED))
    \<and> taxonomy (MslCryptoException WRAP_NOT_SUPPORTED) = CapabilityUnavailableError"
  using assms by (simp add: wrap_def RsaCryptoContext_init_def)

theorem wrap_inactive_not_supported_witness:
  "wrap failing_provider
     (RsaCryptoContext_init ''rsa-1'' (Some \<lparr>rawKey = 6\<rparr>) (Some \<lparr>rawKey = 7\<rparr>)
        ENCRYPT_DECRYPT_OAEP)
     \<lparr>rawKey = 9\<rparr>
   = ([], Callback_error (MslCryptoException WRAP_NOT_SUPPORTED))"
proof -
  have a: "ENCRYPT_DECRYPT_OAEP \<noteq> WRAP_UNWRAP_OAEP"
    by simp
  have b: "ENCRYPT_DECRYPT_OAEP \<noteq> WRAP_UNWRAP_PKCS1"
    by simp
  from wrap_inactive_not_supported [OF a b] show ?thesis
    by simp
qed

subsection \<open>Signing and verifying without a signature algorithm\<close>

text \<open>
  Claim C5. For every context constructed in a mode other than sign/verify, whatever
  its keys, \<open>sign\<close> delivers the empty byte sequence for every input and \<open>verify\<close>
  delivers true for every data and signature; neither calls the provider.
\<close>

theorem sign_verify_inactive:
  assumes "mode \<noteq> SIGN_VERIFY"
  shows "sign P (RsaCryptoContext_init id0 sk pk mode) data = ([], Callback_result [])
    \<and> verify P (RsaCryptoContext_init id0 sk pk mode) data signature
        = ([], Callback_result True)"
  using assms by (simp add: sign_def verify_def RsaCryptoContext_init_def)

theorem sign_verify_inactive_witness:
  "sign failing_provider (RsaCryptoContext_init ''rsa-1'' None None WRAP_UNWRAP_OAEP) [1, 2, 3]
     = ([], Callback_result [])
   \<and> verify failing_provider (RsaCryptoContext_init ''rsa-1'' None None WRAP_UNWRAP_OAEP)
       [1, 2, 3] [4, 5]
     = ([], Callback_result True)"
proof -
  have a: "WRAP_UNWRAP_OAEP \<noteq> SIGN_VERIFY"
    by simp
  from sign_verify_inactive [OF a] show ?thesis
    by simp
qed

subsection \<open>Decrypting an envelope of another key\<close>

text \<open>
  Claim C6. For every context constructed in one of the two encrypt/decrypt modes with
  a private key, \<open>decrypt\<close> of an input that is not empty, that is the text of a JSON
  value and that parses, as version 1, to an envelope whose key identifier is not the
  identity of the context, delivers the crypto exception \<open>ENVELOPE_KEY_ID_MISMATCH\<close>, a
  protocol mismatch, and does not call the provider.
\<close>

theorem decrypt_key_id_mismatch:
  assumes "mode = ENCRYPT_DECRYPT_OAEP \<or> mode = ENCRYPT_DECRYPT_PKCS1"
    and "data \<noteq> []"
    and "parse_bytes P data = Inr jo"
    and "MslCiphertextEnvelope_parse X jo (Some V1) = Inr envelope"
    and "keyId envelope \<noteq> Some id0"
  shows "decrypt P X (RsaCryptoContext_init id0 (Some sk) pk mode) data
           = ([], Callback_error (MslCryptoException ENVELOPE_KEY_ID_MISMATCH))
       \<and> taxonomy (MslCryptoException ENVELOPE_KEY_ID_MISMATCH) = ProtocolMismatchError"
  using assms by (auto simp: decrypt_def RsaCryptoContext_init_def)

text \<open>
  A context of identity \<open>rsa-1\<close> and an input that the JSON parser reads as an envelope
  of the key \<open>rsa-2\<close>.
\<close>

theorem decrypt_key_id_mismatch_witness:
  "decrypt
     (failing_provider\<lparr>parse_bytes := \<lambda>d. Inr (JObj [(''keyid'', JStr ''rsa-2''),
         (''ciphertext'', JStr ''AA==''), (''sha256'', JStr ''AA=='')])\<rparr>)
     example_externals
     (RsaCryptoContext_init ''rsa-1'' (Some \<lparr>rawKey = 6\<rparr>) None ENCRYPT_DECRYPT_OAEP)
     [123, 125]
   = ([], Callback_error (MslCryptoException ENVELOPE_KEY_ID_MISMATCH))"
proof -
  let ?jo = "JObj [(''keyid'', JStr ''rsa-2''), (''ciphertext'', JStr ''AA==''),
                   (''sha256'', JStr ''AA=='')]"
  let ?P = "failing_provider\<lparr>parse_bytes := \<lambda>d. Inr ?jo\<rparr>"
  let ?envelope = "\<lparr>version = V1, keyId = Some ''rsa-2'', cipherSpec = None,
                    iv = Absent F_undefined, ciphertext = [0]\<rparr>"
  have a: "ENCRYPT_DECRYPT_OAEP = ENCRYPT_DECRYPT_OAEP
           \<or> ENCRYPT_DECRYPT_OAEP = ENCRYPT_DECRYPT_PKCS1"
    by simp
  have b: "[123, 125] \<noteq> ([] :: bytes)"
    by simp
  have c: "parse_bytes ?P [123, 125] = Inr ?jo"
    by simp
  have d: "MslCiphertextEnvelope_parse example_externals ?jo (Some V1) = Inr ?envelope"
    by (simp add: MslCiphertextEnvelope_parse_def parse_V1_def decode_base64_def init_def
        example_externals_def MslConstants_CipherSpec_def char_sextet_def base64_alphabet_def)
  have e: "keyId ?envelope \<noteq> Some ''rsa-1''"
    by simp
  from decrypt_key_id_mismatch [OF a b c d e] show ?thesis
    by simp
qed

end
